theory Spec2Isabelle
  imports Complex_Main "HOL-Library.Word"
begin

section \<open>Values held by Go's empty interface\<close>

text \<open>
  A \<^verbatim>\<open>float64\<close> is modelled by its numerical value when it is finite; the two
  infinities and NaN are separate values. Every finite double is a real number, so a
  statement about all \<open>Finite x\<close> covers every finite \<^verbatim>\<open>float64\<close>.
\<close>

datatype float64 = Finite real | PosInf | NegInf | NaN

text \<open>
  The dynamic types an \<^verbatim>\<open>interface{}\<close> holds in this package and its tests:
  \<^verbatim>\<open>nil\<close>, \<^verbatim>\<open>string\<close>, \<^verbatim>\<open>float64\<close>, \<^verbatim>\<open>bool\<close>, \<^verbatim>\<open>int\<close>, \<^verbatim>\<open>[]float64\<close>,
  \<^verbatim>\<open>[]int\<close>, \<^verbatim>\<open>[]string\<close>, and the two containers \<^verbatim>\<open>encoding/json\<close> builds,
  \<^verbatim>\<open>[]interface{}\<close> and \<^verbatim>\<open>map[string]interface{}\<close>.
\<close>

datatype iface =
    VNil
  | VString string
  | VFloat64 float64
  | VBool bool
  | VInt int
  | VFloat64Slice "float64 list"
  | VIntSlice "int list"
  | VStringSlice "string list"
  | VSlice "iface list"
  | VMap "(string \<times> iface) list"

type_synonym int64 = "64 word"

text \<open>Go's \<^verbatim>\<open>int\<close> on a 64-bit target.\<close>

type_synonym goint = "64 word"

section \<open>Errors\<close>

text \<open>
  Each error is the format string of its \<^verbatim>\<open>fmt.Errorf\<close> call together with the
  arguments:
  \<^item> \<open>InvalidStateObject i n 17\<close>: "invalid state object at position i: response contains
    n values, expected 17";
  \<^item> \<open>InvalidValue field i v\<close>: "invalid field value at position i: v";
  \<^item> \<open>InvalidWrapped field i e\<close>: "invalid field value at position i: e", wrapping \<open>e\<close>;
  \<^item> \<open>NotNumber v\<close>: "couldn't parse v as number";
  \<^item> \<open>NotNumberArray v\<close>: "couldn't parse v as number array";
  \<^item> \<open>ErrSyntax s\<close> and \<open>ErrRange s\<close>: the errors of \<^verbatim>\<open>strconv.ParseInt\<close> on the
    text \<open>s\<close>, invalid syntax and value out of range.
\<close>

datatype error =
    InvalidStateObject int nat nat
  | InvalidValue string int iface
  | InvalidWrapped string int error
  | NotNumber iface
  | NotNumberArray iface
  | ErrSyntax string
  | ErrRange string

section \<open>Conversion of floating-point numbers to integers\<close>

definition trunc :: "real \<Rightarrow> int" where
  "trunc x = (if 0 \<le> x then \<lfloor>x\<rfloor> else - \<lfloor>- x\<rfloor>)"

definition fits_int64 :: "real \<Rightarrow> bool" where
  "fits_int64 x = (- (2 ^ 63) \<le> trunc x \<and> trunc x < 2 ^ 63)"

text \<open>
  The conversion \<^verbatim>\<open>int64(f)\<close>: the fraction is discarded. When the result does not fit
  (or \<open>f\<close> is not finite) Go leaves the value to the implementation; the model takes the
  one of amd64, the smallest \<^verbatim>\<open>int64\<close>.
\<close>

definition int64_of_float64 :: "float64 \<Rightarrow> int64" where
  "int64_of_float64 f =
     (case f of
        Finite x \<Rightarrow> if fits_int64 x then word_of_int (trunc x) else word_of_int (- (2 ^ 63))
      | _ \<Rightarrow> word_of_int (- (2 ^ 63)))"

text \<open>The conversion \<^verbatim>\<open>int(f)\<close>, the same on a 64-bit target.\<close>

definition int_of_float64 :: "float64 \<Rightarrow> goint" where
  "int_of_float64 f = int64_of_float64 f"

section \<open>Type assertions\<close>

text \<open>
  The type assertions \<^verbatim>\<open>v.(string)\<close>, \<^verbatim>\<open>v.(float64)\<close>, \<^verbatim>\<open>v.(bool)\<close> and
  \<^verbatim>\<open>v.([]float64)\<close>: the value when the dynamic type is the asserted one, \<open>None\<close> when
  the assertion reports \<^verbatim>\<open>ok == false\<close>.
\<close>

definition as_string :: "iface \<Rightarrow> string option" where
  "as_string v = (case v of VString x \<Rightarrow> Some x | _ \<Rightarrow> None)"

definition as_float64 :: "iface \<Rightarrow> float64 option" where
  "as_float64 v = (case v of VFloat64 x \<Rightarrow> Some x | _ \<Rightarrow> None)"

definition as_bool :: "iface \<Rightarrow> bool option" where
  "as_bool v = (case v of VBool x \<Rightarrow> Some x | _ \<Rightarrow> None)"

definition as_float64_slice :: "iface \<Rightarrow> float64 list option" where
  "as_float64_slice v = (case v of VFloat64Slice x \<Rightarrow> Some x | _ \<Rightarrow> None)"

section \<open>Numeric and array coercion\<close>

text \<open>
  \<^verbatim>\<open>jsonNumberToInt\<close>: the type assertion \<^verbatim>\<open>val.(float64)\<close> decides; on failure the
  integer returned beside the error is 0.
\<close>

definition jsonNumberToInt :: "iface \<Rightarrow> error + int64" where
  "jsonNumberToInt val =
     (case as_float64 val of
        None \<Rightarrow> Inl (NotNumber val)
      | Some fVal \<Rightarrow> Inr (int64_of_float64 fVal))"

text \<open>The loop of \<^verbatim>\<open>jsonNumberArrayToIntArray\<close>, appending to \<open>a\<close>.\<close>

fun append_ints :: "goint list \<Rightarrow> float64 list \<Rightarrow> goint list" where
  "append_ints a [] = a"
| "append_ints a (v # aVal) = append_ints (a @ [int_of_float64 v]) aVal"

text \<open>
  \<^verbatim>\<open>jsonNumberArrayToIntArray\<close>: the type assertion \<^verbatim>\<open>val.([]float64)\<close> decides. A nil
  slice and an empty one are both the empty list.
\<close>

definition jsonNumberArrayToIntArray :: "iface \<Rightarrow> error + goint list" where
  "jsonNumberArrayToIntArray val =
     (case as_float64_slice val of
        None \<Rightarrow> Inl (NotNumberArray val)
      | Some aVal \<Rightarrow> Inr (append_ints [] aVal))"

section \<open>Points in time\<close>

text \<open>
  The standard library's \<^verbatim>\<open>time.Time\<close> holds a wall-clock word, the seconds since
  1 January of year 1, and a location pointer (nil, or the local zone). The zero value
  \<^verbatim>\<open>time.Time{}\<close> has all three zero.
\<close>

datatype Location = Local

record time_Time =
  wall :: "64 word"
  ext :: int64
  loc :: "Location option"

definition zero_Time :: time_Time where
  "zero_Time = \<lparr>wall = 0, ext = 0, loc = None\<rparr>"

text \<open>The seconds from year 1 to 1970: \<open>(1969*365 + 1969/4 - 1969/100 + 1969/400) * 86400\<close>.\<close>

definition unixToInternal :: int64 where
  "unixToInternal = 62135596800"

text \<open>\<^verbatim>\<open>time.Unix(sec, 0)\<close>; every call in this package passes 0 nanoseconds.\<close>

definition time_Unix :: "int64 \<Rightarrow> time_Time" where
  "time_Unix sec = \<lparr>wall = 0, ext = sec + unixToInternal, loc = Some Local\<rparr>"

text \<open>\<^verbatim>\<open>Time.IsZero\<close>: the instant is 1 January of year 1, 00:00:00.\<close>

definition IsZero :: "time_Time \<Rightarrow> bool" where
  "IsZero t = (ext t = 0 \<and> wall t = 0)"

datatype UnixTime = UnixTime time_Time

definition newUnixTime :: "int64 \<Rightarrow> UnixTime" where
  "newUnixTime sec = UnixTime (time_Unix sec)"

subsection \<open>Decoding a timestamp literal\<close>

definition is_digit :: "char \<Rightarrow> bool" where
  "is_digit c = (c \<in> set ''0123456789'')"

definition digit_value :: "char \<Rightarrow> nat" where
  "digit_value c = of_char c - of_char (CHR ''0'')"

text \<open>
  The loop of the standard library's \<^verbatim>\<open>strconv.ParseUint(s, 10, 64)\<close> over the characters,
  with the value \<open>n\<close> read so far: a character that is not a decimal digit is a syntax
  error; a value that leaves the range of \<^verbatim>\<open>uint64\<close> is a range error, reported at the
  digit where it happens.
\<close>

datatype uint_result = USyntax | URange | UValue nat

fun ParseUint :: "nat \<Rightarrow> string \<Rightarrow> uint_result" where
  "ParseUint n [] = UValue n"
| "ParseUint n (c # cs) =
     (if \<not> is_digit c then USyntax
      else if 2 ^ 64 div 10 + 1 \<le> n then URange
      else if 2 ^ 64 \<le> n * 10 + digit_value c then URange
      else ParseUint (n * 10 + digit_value c) cs)"

text \<open>
  The standard library's \<^verbatim>\<open>strconv.ParseInt(s, 10, 64)\<close>: an optional sign, then one
  or more decimal digits, the value within the range of \<^verbatim>\<open>int64\<close>.
\<close>

definition ParseInt :: "string \<Rightarrow> error + int64" where
  "ParseInt s =
     (if s = [] then Inl (ErrSyntax s)
      else
        let neg = (hd s = CHR ''-'');
            body = (if hd s = CHR ''+'' \<or> hd s = CHR ''-'' then tl s else s)
        in if body = [] then Inl (ErrSyntax s)
           else
             case ParseUint 0 body of
               USyntax \<Rightarrow> Inl (ErrSyntax s)
             | URange \<Rightarrow> Inl (ErrRange s)
             | UValue un \<Rightarrow>
                 if \<not> neg \<and> 2 ^ 63 \<le> un then Inl (ErrRange s)
                 else if neg \<and> 2 ^ 63 < un then Inl (ErrRange s)
                 else Inr (word_of_int (if neg then - int un else int un)))"

text \<open>
  \<^verbatim>\<open>(*UnixTime).UnmarshalJSON\<close>: the receiver's value before the call goes in, its value
  after the call and the error come out.
\<close>

definition UnmarshalJSON :: "UnixTime \<Rightarrow> string \<Rightarrow> UnixTime \<times> error option" where
  "UnmarshalJSON t raw =
     (if raw = ''null'' then (UnixTime zero_Time, None)
      else case ParseInt raw of
             Inl err \<Rightarrow> (t, Some err)
           | Inr unixTimestamp \<Rightarrow> (UnixTime (time_Unix unixTimestamp), None))"

section \<open>State vectors\<close>

type_synonym PositionSource = goint

definition ADSB :: PositionSource where "ADSB = 0"

definition ASTERIX :: PositionSource where "ASTERIX = 1"

definition MLAT :: PositionSource where "MLAT = 2"

definition FLARM :: PositionSource where "FLARM = 3"

text \<open>
  A pointer field is an option; a nil slice is the empty list; an unset string is the
  empty string.
\<close>

record State =
  ICAO24 :: string
  CallSign :: string
  OriginCountry :: string
  TimePosition :: "UnixTime option"
  LastContact :: UnixTime
  Longitude :: "float64 option"
  Latitude :: "float64 option"
  GeoAltitude :: "float64 option"
  OnGround :: bool
  Velocity :: "float64 option"
  Heading :: "float64 option"
  VerticalRate :: "float64 option"
  Sensors :: "goint list"
  BarometricAltitude :: "float64 option"
  Squawk :: string
  Spi :: bool
  PositionSource :: PositionSource

record unstructuredStateResponse =
  Time :: int64
  States :: "iface list list"

record GetStatesResponse =
  Time :: time_Time
  States :: "State list"

text \<open>
  A step of a function that returns early on an error: \<open>and_then m f\<close> returns the error
  of \<open>m\<close>, or goes on with \<open>f\<close> on its value.
\<close>

definition and_then :: "error + 'a \<Rightarrow> ('a \<Rightarrow> error + 'b) \<Rightarrow> error + 'b" where
  "and_then m f = (case m of Inl err \<Rightarrow> Inl err | Inr x \<Rightarrow> f x)"

text \<open>
  \<^verbatim>\<open>parseState\<close>: every early return of the source is an \<open>Inl\<close> here, in the source's
  order. The state returned beside an error is the zero State.
\<close>

definition parseState :: "iface list \<Rightarrow> int \<Rightarrow> error + State" where
  "parseState s i =
     (if length s < 17 then Inl (InvalidStateObject i (length s) 17)
      else
        and_then (case as_string (s ! 0) of
                    None \<Rightarrow> Inl (InvalidValue ''icao24'' i (s ! 0))
                  | Some x \<Rightarrow> Inr x) (\<lambda>icao24.
        and_then (if s ! 1 \<noteq> VNil
                  then (case as_string (s ! 1) of
                          None \<Rightarrow> Inl (InvalidValue ''callsign'' i (s ! 1))
                        | Some x \<Rightarrow> Inr x)
                  else Inr []) (\<lambda>callsign.
        and_then (case as_string (s ! 2) of
                    None \<Rightarrow> Inl (InvalidValue ''origin_country'' i (s ! 2))
                  | Some x \<Rightarrow> Inr x) (\<lambda>originCountry.
        and_then (if s ! 3 \<noteq> VNil
                  then (case jsonNumberToInt (s ! 3) of
                          Inl err \<Rightarrow> Inl (InvalidWrapped ''time_position'' i err)
                        | Inr rawTimePosition \<Rightarrow> Inr (Some (newUnixTime rawTimePosition)))
                  else Inr None) (\<lambda>timePosition.
        and_then (case jsonNumberToInt (s ! 4) of
                    Inl err \<Rightarrow> Inl (InvalidWrapped ''last_contact'' i err)
                  | Inr x \<Rightarrow> Inr x) (\<lambda>lastContact.
        let lon = as_float64 (s ! 5);
            lat = as_float64 (s ! 6);
            baroAltitude = as_float64 (s ! 7)
        in
        and_then (case as_bool (s ! 8) of
                    None \<Rightarrow> Inl (InvalidValue ''on_ground'' i (s ! 8))
                  | Some x \<Rightarrow> Inr x) (\<lambda>onGround.
        let velocity = as_float64 (s ! 9);
            trueTrack = as_float64 (s ! 10);
            verticalRate = as_float64 (s ! 11)
        in
        and_then (if s ! 12 \<noteq> VNil
                  then (case jsonNumberArrayToIntArray (s ! 12) of
                          Inl err \<Rightarrow> Inl (InvalidWrapped ''sensors'' i err)
                        | Inr a \<Rightarrow> Inr a)
                  else Inr []) (\<lambda>sensors.
        let geoAltitude = as_float64 (s ! 13)
        in
        and_then (if s ! 14 \<noteq> VNil
                  then (case as_string (s ! 14) of
                          None \<Rightarrow> Inl (InvalidValue ''squawk'' i (s ! 14))
                        | Some x \<Rightarrow> Inr x)
                  else Inr []) (\<lambda>squawk.
        and_then (case as_bool (s ! 15) of
                    None \<Rightarrow> Inl (InvalidValue ''spi'' i (s ! 15))
                  | Some x \<Rightarrow> Inr x) (\<lambda>spi.
        and_then (case jsonNumberToInt (s ! 16) of
                    Inl err \<Rightarrow> Inl (InvalidWrapped ''position_source'' i err)
                  | Inr x \<Rightarrow> Inr x) (\<lambda>positionSource.
        Inr \<lparr>ICAO24 = icao24,
             CallSign = callsign,
             OriginCountry = originCountry,
             TimePosition = timePosition,
             LastContact = newUnixTime lastContact,
             Longitude = lon,
             Latitude = lat,
             GeoAltitude = geoAltitude,
             OnGround = onGround,
             Velocity = velocity,
             Heading = trueTrack,
             VerticalRate = verticalRate,
             Sensors = sensors,
             BarometricAltitude = baroAltitude,
             Squawk = squawk,
             Spi = spi,
             PositionSource = positionSource\<rparr>)))))))))))"

section \<open>Batches of state vectors\<close>

text \<open>
  The loop of \<^verbatim>\<open>parseStatesResponse\<close> over the records with their indices. The function
  has named results and returns with a bare \<^verbatim>\<open>return\<close>, so the response built so far
  goes out beside the error.
\<close>

fun parse_states :: "GetStatesResponse \<Rightarrow> int \<Rightarrow> iface list list \<Rightarrow> GetStatesResponse \<times> error option" where
  "parse_states response i [] = (response, None)"
| "parse_states response i (s # rest) =
     (case parseState s i of
        Inl err \<Rightarrow> (response, Some err)
      | Inr state \<Rightarrow>
          parse_states (response\<lparr>States := States response @ [state]\<rparr>) (i + 1) rest)"

definition parseStatesResponse :: "unstructuredStateResponse \<Rightarrow> GetStatesResponse \<times> error option" where
  "parseStatesResponse rawResponse =
     parse_states
       \<lparr>Time = time_Unix (unstructuredStateResponse.Time rawResponse), States = []\<rparr>
       0
       (unstructuredStateResponse.States rawResponse)"

section \<open>The field layout\<close>

text \<open>
  What the wire contract asks of the value at each position: a string at 0 and 2; a
  string or null at 1 and 14; a number or null at 3; a number at 4 and 16; a boolean at
  8 and 15; a slice of numbers or null at 12; anything at the positions of the
  permissive fields 5, 6, 7, 9, 10, 11 and 13.
\<close>

definition field_valid :: "nat \<Rightarrow> iface \<Rightarrow> bool" where
  "field_valid k v =
     (if k = 0 \<or> k = 2 then as_string v \<noteq> None
      else if k = 1 \<or> k = 14 then v = VNil \<or> as_string v \<noteq> None
      else if k = 3 then v = VNil \<or> as_float64 v \<noteq> None
      else if k = 4 \<or> k = 16 then as_float64 v \<noteq> None
      else if k = 8 \<or> k = 15 then as_bool v \<noteq> None
      else if k = 12 then v = VNil \<or> as_float64_slice v \<noteq> None
      else True)"

text \<open>The field of a State that position \<open>k\<close> of a record fills, for the permissive positions.\<close>

definition permissive_field :: "nat \<Rightarrow> State \<Rightarrow> float64 option" where
  "permissive_field k st =
     (if k = 5 then Longitude st
      else if k = 6 then Latitude st
      else if k = 7 then BarometricAltitude st
      else if k = 9 then Velocity st
      else if k = 10 then Heading st
      else if k = 11 then VerticalRate st
      else GeoAltitude st)"

section \<open>Records of the test suite\<close>

text \<open>The record of \<^verbatim>\<open>TestParseState\<close> with every optional value filled.\<close>

definition record_filled :: "iface list" where
  "record_filled =
     [VString ''ae1fa7'', VString ''TALON71 '', VString ''United States'',
      VFloat64 (Finite 1624891429), VFloat64 (Finite 1624891429),
      VFloat64 (Finite (- 1162121 / 10000)), VFloat64 (Finite (435431 / 10000)),
      VFloat64 (Finite (9144 / 10)), VBool False, VFloat64 (Finite (1795 / 100)),
      VFloat64 (Finite (1173 / 10)), VFloat64 (Finite (- 13 / 10)),
      VFloat64Slice [Finite 1000, Finite 1042], VFloat64 (Finite (9525 / 10)),
      VString ''0753'', VBool False, VFloat64 (Finite 0)]"

text \<open>The record of \<^verbatim>\<open>TestParseStatesResponse\<close> with every optional value nil.\<close>

definition record_nulls :: "iface list" where
  "record_nulls =
     [VString ''a50c7c'', VNil, VString ''United States'',
      VFloat64 (Finite 1624891429), VFloat64 (Finite 1624891429),
      VNil, VNil, VNil, VBool False, VNil, VNil, VNil, VNil, VNil, VNil, VBool False,
      VFloat64 (Finite 0)]"

text \<open>The state the test suite expects for \<open>record_nulls\<close>.\<close>

definition state_nulls :: State where
  "state_nulls =
     \<lparr>ICAO24 = ''a50c7c'', CallSign = [], OriginCountry = ''United States'',
      TimePosition = Some (newUnixTime 1624891429), LastContact = newUnixTime 1624891429,
      Longitude = None, Latitude = None, GeoAltitude = None, OnGround = False,
      Velocity = None, Heading = None, VerticalRate = None, Sensors = [],
      BarometricAltitude = None, Squawk = [], Spi = False, PositionSource = ADSB\<rparr>"

text \<open>The state the test suite expects for \<open>record_filled\<close>.\<close>

definition state_filled :: State where
  "state_filled =
     \<lparr>ICAO24 = ''ae1fa7'', CallSign = ''TALON71 '', OriginCountry = ''United States'',
      TimePosition = Some (newUnixTime 1624891429), LastContact = newUnixTime 1624891429,
      Longitude = Some (Finite (- 1162121 / 10000)), Latitude = Some (Finite (435431 / 10000)),
      GeoAltitude = Some (Finite (9525 / 10)), OnGround = False,
      Velocity = Some (Finite (1795 / 100)), Heading = Some (Finite (1173 / 10)),
      VerticalRate = Some (Finite (- 13 / 10)), Sensors = [1000, 1042],
      BarometricAltitude = Some (Finite (9144 / 10)), Squawk = ''0753'', Spi = False,
      PositionSource = ADSB\<rparr>"

text \<open>
  The record of \<^verbatim>\<open>TestParseStatesResponse\<close> whose special purpose indicator is the string
  "invalid_spi".
\<close>

definition record_invalid_spi :: "iface list" where
  "record_invalid_spi =
     [VString ''a50c7c'', VNil, VString ''United States'',
      VFloat64 (Finite 1624891429), VFloat64 (Finite 1624891429),
      VNil, VNil, VNil, VBool False, VNil, VNil, VNil, VNil, VNil, VNil,
      VString ''invalid_spi'', VFloat64 (Finite 0)]"

text \<open>
  The filled record as \<^verbatim>\<open>encoding/json\<close> decodes it from the wire text
  \<^verbatim>\<open>[..., [1000,1042], ...]\<close> into a \<^verbatim>\<open>[]interface{}\<close>: the sensors array arrives as a
  \<^verbatim>\<open>[]interface{}\<close> of \<^verbatim>\<open>float64\<close>, every other value as in \<open>record_filled\<close>.
\<close>

definition record_filled_wire :: "iface list" where
  "record_filled_wire =
     [VString ''ae1fa7'', VString ''TALON71 '', VString ''United States'',
      VFloat64 (Finite 1624891429), VFloat64 (Finite 1624891429),
      VFloat64 (Finite (- 1162121 / 10000)), VFloat64 (Finite (435431 / 10000)),
      VFloat64 (Finite (9144 / 10)), VBool False, VFloat64 (Finite (1795 / 100)),
      VFloat64 (Finite (1173 / 10)), VFloat64 (Finite (- 13 / 10)),
      VSlice [VFloat64 (Finite 1000), VFloat64 (Finite 1042)], VFloat64 (Finite (9525 / 10)),
      VString ''0753'', VBool False, VFloat64 (Finite 0)]"

section \<open>Arrays of numbers\<close>

text \<open>
  A value whose decoded representation is an array of floating-point numbers: a
  \<^verbatim>\<open>[]float64\<close>, or a \<^verbatim>\<open>[]interface{}\<close> whose elements are all \<^verbatim>\<open>float64\<close>.
\<close>

definition is_number_array :: "iface \<Rightarrow> bool" where
  "is_number_array v =
     (case v of
        VFloat64Slice a \<Rightarrow> True
      | VSlice a \<Rightarrow> list_all (\<lambda>x. as_float64 x \<noteq> None) a
      | _ \<Rightarrow> False)"

section \<open>Facts about the conversions\<close>

lemma append_ints_map: "append_ints a aVal = a @ map int_of_float64 aVal"
  by (induction aVal arbitrary: a) simp_all

lemma sint_int64_of_float64:
  assumes "fits_int64 x"
  shows "sint (int64_of_float64 (Finite x)) = trunc x"
proof -
  have "- (2 ^ 63) \<le> trunc x" and "trunc x < 2 ^ 63"
    using assms by (simp_all add: fits_int64_def)
  then have "signed_take_bit 63 (trunc x) = trunc x"
    by (rule signed_take_bit_int_eq_self)
  then have "sint (word_of_int (trunc x) :: 64 word) = trunc x"
    by (simp add: sint_sbintrunc')
  then show ?thesis
    using assms by (simp add: int64_of_float64_def)
qed

subsection \<open>Early returns\<close>

lemma and_then_Inl [simp]: "and_then (Inl e) f = Inl e"
  by (simp add: and_then_def)

lemma and_then_Inr [simp]: "and_then (Inr x) f = f x"
  by (simp add: and_then_def)

lemma and_then_eq_Inr: "and_then m f = Inr y \<longleftrightarrow> (\<exists>x. m = Inr x \<and> f x = Inr y)"
  by (cases m) simp_all

subsection \<open>The seventeen positions\<close>

lemma all_less_17_conj:
  "(\<forall>k<17::nat. P k) \<longleftrightarrow>
     P 0 \<and> P 1 \<and> P 2 \<and> P 3 \<and> P 4 \<and> P 5 \<and> P 6 \<and> P 7 \<and> P 8 \<and> P 9 \<and> P 10 \<and> P 11 \<and> P 12
     \<and> P 13 \<and> P 14 \<and> P 15 \<and> P 16"
  (is "?L \<longleftrightarrow> ?R")
proof
  assume ?L
  then show ?R by simp
next
  assume r: ?R
  show ?L
  proof (intro allI impI)
    fix k :: nat
    assume "k < 17"
    then have "k = 0 \<or> k = 1 \<or> k = 2 \<or> k = 3 \<or> k = 4 \<or> k = 5 \<or> k = 6 \<or> k = 7 \<or> k = 8
      \<or> k = 9 \<or> k = 10 \<or> k = 11 \<or> k = 12 \<or> k = 13 \<or> k = 14 \<or> k = 15 \<or> k = 16"
      by presburger
    with r show "P k" by blast
  qed
qed

subsection \<open>When a record decodes\<close>

lemma parseState_short:
  "length s < 17 \<Longrightarrow> parseState s i = Inl (InvalidStateObject i (length s) 17)"
  by (simp add: parseState_def)

lemma parseState_take: "17 \<le> length s \<Longrightarrow> parseState (take 17 s) i = parseState s i"
  by (simp add: parseState_def cong: if_cong option.case_cong sum.case_cong split del: if_split)

lemma parseState_succeeds_iff:
  "(\<exists>st. parseState s i = Inr st) \<longleftrightarrow> 17 \<le> length s \<and> (\<forall>k<17. field_valid k (s ! k))"
proof (cases "length s < 17")
  case True
  then show ?thesis by (simp add: parseState_def)
next
  case False
  then show ?thesis
    unfolding all_less_17_conj
    by (auto simp add: parseState_def field_valid_def and_then_eq_Inr Let_def
        jsonNumberToInt_def jsonNumberArrayToIntArray_def split: option.splits)
qed

text \<open>The permissive fields of a decoded State are the type assertions on their positions.\<close>

lemma parseState_permissive:
  assumes "parseState s i = Inr st"
  shows "Longitude st = as_float64 (s ! 5)" and "Latitude st = as_float64 (s ! 6)"
    and "BarometricAltitude st = as_float64 (s ! 7)" and "Velocity st = as_float64 (s ! 9)"
    and "Heading st = as_float64 (s ! 10)" and "VerticalRate st = as_float64 (s ! 11)"
    and "GeoAltitude st = as_float64 (s ! 13)"
  using assms
  by (cases "length s < 17"; auto simp add: parseState_def and_then_eq_Inr Let_def)+

text \<open>A null at a validated position leaves its field unset.\<close>

lemma parseState_null:
  assumes "parseState s i = Inr st"
  shows "s ! 3 = VNil \<Longrightarrow> TimePosition st = None" and "s ! 12 = VNil \<Longrightarrow> Sensors st = []"
    and "s ! 14 = VNil \<Longrightarrow> Squawk st = []"
  using assms
  by (cases "length s < 17"; auto simp add: parseState_def and_then_eq_Inr Let_def)+

text \<open>A value that is not a number, at a permissive position, decodes as a null does.\<close>

lemma parseState_permissive_drop:
  assumes "17 \<le> length s" and "as_float64 v = None"
    and "k = 5 \<or> k = 6 \<or> k = 7 \<or> k = 9 \<or> k = 10 \<or> k = 11 \<or> k = 13"
  shows "parseState (s[k := v]) i = parseState (s[k := VNil]) i"
proof -
  have n: "as_float64 VNil = None"
    by (simp add: as_float64_def)
  from assms(3) show ?thesis
    using assms(1,2) n
    by (elim disjE; simp add: parseState_def cong: if_cong option.case_cong sum.case_cong
        split del: if_split)
qed

text \<open>With seventeen values or more, an error is about one field, at the record's index.\<close>

lemma parseState_error_kind:
  assumes "17 \<le> length s" and "parseState s i = Inl e"
  shows "(\<exists>field v. e = InvalidValue field i v) \<or> (\<exists>field e'. e = InvalidWrapped field i e')"
  using assms
  by (auto simp add: parseState_def and_then_def Let_def split: sum.splits option.splits if_splits)

lemma map_sint_int_of_float64:
  "\<forall>x \<in> set xs. fits_int64 x \<Longrightarrow> map sint (map int_of_float64 (map Finite xs)) = map trunc xs"
  by (induction xs) (simp_all add: int_of_float64_def sint_int64_of_float64)

lemma parseState_record_nulls: "parseState record_nulls i = Inr state_nulls"
  by (simp add: parseState_def record_nulls_def state_nulls_def as_string_def as_float64_def
      as_bool_def jsonNumberToInt_def int64_of_float64_def fits_int64_def trunc_def ADSB_def)

subsection \<open>Replacing one value of a record\<close>

lemma field_valid_update:
  assumes "length s = 17" and "\<forall>j<17. j \<noteq> k \<longrightarrow> field_valid j (s ! j)" and "field_valid k v"
  shows "\<forall>j<17. field_valid j (s[k := v] ! j)"
proof (intro allI impI)
  fix j :: nat
  assume j: "j < 17"
  show "field_valid j (s[k := v] ! j)"
  proof (cases "j = k")
    case True
    then have "s[k := v] ! j = v"
      using j assms(1) by simp
    then show ?thesis
      using True assms(3) by simp
  next
    case False
    then have "s[k := v] ! j = s ! j"
      by simp
    then show ?thesis
      using False j assms(2) by simp
  qed
qed

lemma parseState_update_succeeds:
  assumes "length s = 17" and "\<forall>j<17. j \<noteq> k \<longrightarrow> field_valid j (s ! j)" and "field_valid k v"
  shows "\<exists>st. parseState (s[k := v]) i = Inr st"
  using field_valid_update [OF assms] assms(1) by (simp add: parseState_succeeds_iff)

lemma record_nulls_valid: "\<forall>j<17. field_valid j (record_nulls ! j)"
  using parseState_succeeds_iff [of record_nulls 0] by (simp add: parseState_record_nulls)

lemma record_nulls_others_valid: "\<forall>j<17. j \<noteq> k \<longrightarrow> field_valid j (record_nulls ! j)"
  using record_nulls_valid by simp

lemma length_record_nulls: "length record_nulls = 17"
  by (simp add: record_nulls_def)

subsection \<open>Values of the wrong type at validated positions\<close>

lemma jsonNumberToInt_not_float:
  "as_float64 v = None \<Longrightarrow> jsonNumberToInt v = Inl (NotNumber v)"
  by (simp add: jsonNumberToInt_def)

lemma jsonNumberArrayToIntArray_not_slice:
  "as_float64_slice v = None \<Longrightarrow> jsonNumberArrayToIntArray v = Inl (NotNumberArray v)"
  by (simp add: jsonNumberArrayToIntArray_def)

lemma parseState_validated_3:
  assumes "17 \<le> length s" and "\<forall>j<17. j \<noteq> 3 \<longrightarrow> field_valid j (s ! j)"
    and "s ! 3 \<noteq> VNil" and "as_float64 (s ! 3) = None"
  shows "parseState s i = Inl (InvalidWrapped ''time_position'' i (NotNumber (s ! 3)))"
proof -
  have "field_valid 0 (s ! 0)" and "field_valid 1 (s ! 1)" and "field_valid 2 (s ! 2)"
    using assms(2) by simp_all
  then show ?thesis
    using assms(1,3,4)
    by (auto simp add: parseState_def field_valid_def jsonNumberToInt_not_float)
qed

lemma parseState_validated_12:
  assumes "17 \<le> length s" and "\<forall>j<17. j \<noteq> 12 \<longrightarrow> field_valid j (s ! j)"
    and "s ! 12 \<noteq> VNil" and "as_float64_slice (s ! 12) = None"
  shows "parseState s i = Inl (InvalidWrapped ''sensors'' i (NotNumberArray (s ! 12)))"
proof -
  have "field_valid 0 (s ! 0)" and "field_valid 1 (s ! 1)" and "field_valid 2 (s ! 2)"
    and "field_valid 3 (s ! 3)" and "field_valid 4 (s ! 4)" and "field_valid 8 (s ! 8)"
    using assms(2) by simp_all
  then show ?thesis
    using assms(1,3,4)
    by (auto simp add: parseState_def field_valid_def jsonNumberToInt_def
        jsonNumberArrayToIntArray_not_slice)
qed

lemma parseState_validated_14:
  assumes "17 \<le> length s" and "\<forall>j<17. j \<noteq> 14 \<longrightarrow> field_valid j (s ! j)"
    and "s ! 14 \<noteq> VNil" and "as_string (s ! 14) = None"
  shows "parseState s i = Inl (InvalidValue ''squawk'' i (s ! 14))"
proof -
  have "field_valid 0 (s ! 0)" and "field_valid 1 (s ! 1)" and "field_valid 2 (s ! 2)"
    and "field_valid 3 (s ! 3)" and "field_valid 4 (s ! 4)" and "field_valid 8 (s ! 8)"
    and "field_valid 12 (s ! 12)"
    using assms(2) by simp_all
  then show ?thesis
    using assms(1,3,4)
    by (auto simp add: parseState_def field_valid_def jsonNumberToInt_def
        jsonNumberArrayToIntArray_def)
qed

lemma others_valid_update:
  assumes "\<forall>j<17. j \<noteq> k \<longrightarrow> field_valid j (s ! j)"
  shows "\<forall>j<17. j \<noteq> k \<longrightarrow> field_valid j (s[k := v] ! j)"
  using assms by simp

lemma parseState_position_source:
  assumes "parseState s i = Inr st"
  shows "jsonNumberToInt (s ! 16) = Inr (PositionSource st)"
  using assms
  by (cases "length s < 17"; auto simp add: parseState_def and_then_eq_Inr Let_def
      split: sum.splits)

subsection \<open>A record with every value of its field's type\<close>

text \<open>
  With the sensors as a \<^verbatim>\<open>[]float64\<close> the record decodes, each field from the value at
  its position.
\<close>

lemma parseState_filled:
  "parseState
     [VString icao24, VString callsign, VString originCountry, VFloat64 tp, VFloat64 lc,
      VFloat64 lon, VFloat64 lat, VFloat64 baro, VBool onGround, VFloat64 vel,
      VFloat64 trk, VFloat64 vr, VFloat64Slice ss, VFloat64 geo, VString squawk, VBool spi,
      VFloat64 ps] i
   = Inr \<lparr>ICAO24 = icao24, CallSign = callsign, OriginCountry = originCountry,
          TimePosition =
            Some (UnixTime \<lparr>wall = 0, ext = int64_of_float64 tp + 62135596800,
                             loc = Some Local\<rparr>),
          LastContact =
            UnixTime \<lparr>wall = 0, ext = int64_of_float64 lc + 62135596800, loc = Some Local\<rparr>,
          Longitude = Some lon, Latitude = Some lat, GeoAltitude = Some geo,
          OnGround = onGround, Velocity = Some vel, Heading = Some trk,
          VerticalRate = Some vr, Sensors = map int_of_float64 ss,
          BarometricAltitude = Some baro, Squawk = squawk, Spi = spi,
          PositionSource = int64_of_float64 ps\<rparr>"
  by (simp add: parseState_def as_string_def as_float64_def as_bool_def as_float64_slice_def
      jsonNumberToInt_def jsonNumberArrayToIntArray_def append_ints_map newUnixTime_def
      time_Unix_def unixToInternal_def)

lemma parseState_record_filled: "parseState record_filled i = Inr state_filled"
  by (simp add: record_filled_def state_filled_def parseState_filled int_of_float64_def
      int64_of_float64_def fits_int64_def trunc_def ADSB_def newUnixTime_def time_Unix_def
      unixToInternal_def)

text \<open>
  With the sensors as a \<^verbatim>\<open>[]interface{}\<close>, whatever it holds, a record whose other values
  are valid fails at the sensors field.
\<close>

lemma parseState_json_array_rejected:
  assumes "17 \<le> length s" and "\<forall>j<17. j \<noteq> 12 \<longrightarrow> field_valid j (s ! j)"
    and "s ! 12 = VSlice a"
  shows "parseState s i = Inl (InvalidWrapped ''sensors'' i (NotNumberArray (VSlice a)))"
  using parseState_validated_12 [OF assms(1,2), of i] assms(3)
  by (simp add: as_float64_slice_def)

subsection \<open>The loop over a batch\<close>

text \<open>
  While the records decode, the loop appends their states; at the first record that
  fails it returns the error of that record together with the states appended so far.
\<close>

lemma parse_states_all_valid:
  assumes "list_all2 (\<lambda>s st. \<forall>j. parseState s j = Inr st) pre sts"
  shows "parse_states response i (pre @ rest)
    = parse_states (response\<lparr>States := States response @ sts\<rparr>) (i + int (length pre)) rest"
  using assms
proof (induction pre sts arbitrary: response i rule: list_all2_induct)
  case Nil
  then show ?case by simp
next
  case (Cons s pre st sts)
  have "parse_states response i ((s # pre) @ rest)
      = parse_states (response\<lparr>States := States response @ [st]\<rparr>) (i + 1) (pre @ rest)"
    using Cons.hyps(1) by simp
  also have "\<dots> = parse_states
        (response\<lparr>States := States response @ [st]\<rparr>\<lparr>States :=
           States (response\<lparr>States := States response @ [st]\<rparr>) @ sts\<rparr>)
        (i + 1 + int (length pre)) rest"
    by (rule Cons.IH)
  finally show ?case
    by (simp add: add.assoc)
qed

lemma parse_states_first_failure:
  assumes "list_all2 (\<lambda>s st. \<forall>j. parseState s j = Inr st) pre sts"
    and "parseState s (i + int (length pre)) = Inl err"
  shows "parse_states response i (pre @ s # rest)
    = (response\<lparr>States := States response @ sts\<rparr>, Some err)"
  using parse_states_all_valid [OF assms(1), of response i "s # rest"] assms(2) by simp

lemma parseState_record_invalid_spi:
  "parseState record_invalid_spi i = Inl (InvalidValue ''spi'' i (VString ''invalid_spi''))"
  by (simp add: parseState_def record_invalid_spi_def as_string_def as_float64_def
      as_bool_def jsonNumberToInt_def)

subsection \<open>Timestamp literals\<close>

lemma ParseInt_not_number:
  assumes "raw \<noteq> []" and "hd raw = CHR 0x22 \<or> hd raw = CHR ''{'' \<or> hd raw = CHR ''[''"
  shows "ParseInt raw = Inl (ErrSyntax raw)"
proof -
  obtain c cs where r: "raw = c # cs"
    using assms(1) by (cases raw) auto
  then have "c = CHR 0x22 \<or> c = CHR ''{'' \<or> c = CHR ''[''"
    using assms(2) by simp
  then have "\<not> is_digit c" and "c \<noteq> CHR ''+''" and "c \<noteq> CHR ''-''"
    by (auto simp add: is_digit_def)
  then show ?thesis
    using r by (simp add: ParseInt_def)
qed

lemma ParseInt_zero: "ParseInt ''0'' = Inr 0"
  by (simp add: ParseInt_def is_digit_def digit_value_def)

lemma ParseInt_timestamp: "ParseInt ''1624891429'' = Inr 1624891429"
  by (simp add: ParseInt_def is_digit_def digit_value_def)

lemma ParseInt_negative: "ParseInt ''-42'' = Inr (- 42)"
  by (simp add: ParseInt_def is_digit_def digit_value_def)

lemma ParseInt_smallest: "ParseInt ''-9223372036854775808'' = Inr (- 9223372036854775808)"
  by (simp add: ParseInt_def is_digit_def digit_value_def)

lemma ParseInt_too_large:
  "ParseInt ''9223372036854775808'' = Inl (ErrRange ''9223372036854775808'')"
  by (simp add: ParseInt_def is_digit_def digit_value_def)

lemma ParseInt_range_before_syntax:
  "ParseInt ''99999999999999999999x'' = Inl (ErrRange ''99999999999999999999x'')"
  by (simp add: ParseInt_def is_digit_def digit_value_def)

lemma ParseInt_fraction: "ParseInt ''1.5'' = Inl (ErrSyntax ''1.5'')"
  by (simp add: ParseInt_def is_digit_def digit_value_def)

section \<open>The claims\<close>

subsection \<open>Numeric coercion\<close>

text \<open>
  C7, as amended. \<^verbatim>\<open>jsonNumberToInt\<close> succeeds exactly on a \<^verbatim>\<open>float64\<close>. When the number,
  truncated toward zero, fits a signed 64-bit integer, that integer is the result. Every
  other value fails with the error that carries the value. The function is pure: its
  result depends on its argument alone.
\<close>

theorem jsonNumberToInt_contract:
  "((\<exists>w. jsonNumberToInt v = Inr w) \<longleftrightarrow> (\<exists>f. v = VFloat64 f))
   \<and> (fits_int64 x \<longrightarrow> (\<exists>w. jsonNumberToInt (VFloat64 (Finite x)) = Inr w \<and> sint w = trunc x))
   \<and> ((\<forall>f. v \<noteq> VFloat64 f) \<longrightarrow> jsonNumberToInt v = Inl (NotNumber v))"
proof (intro conjI impI)
  show "(\<exists>w. jsonNumberToInt v = Inr w) \<longleftrightarrow> (\<exists>f. v = VFloat64 f)"
    by (cases v) (simp_all add: jsonNumberToInt_def as_float64_def)
  show "\<exists>w. jsonNumberToInt (VFloat64 (Finite x)) = Inr w \<and> sint w = trunc x" if "fits_int64 x"
    using that by (simp add: jsonNumberToInt_def as_float64_def sint_int64_of_float64)
  show "jsonNumberToInt v = Inl (NotNumber v)" if "\<forall>f. v \<noteq> VFloat64 f"
    using that by (cases v) (simp_all add: jsonNumberToInt_def as_float64_def)
qed

text \<open>The numbers 2.99, 42.0 and -1.0 give 2, 42 and -1; the string "foo" gives the error.\<close>

theorem jsonNumberToInt_contract_witness:
  "fits_int64 (299 / 100) \<and> fits_int64 42 \<and> fits_int64 (- 1)
   \<and> (\<exists>w. jsonNumberToInt (VFloat64 (Finite (299 / 100))) = Inr w \<and> sint w = 2)
   \<and> (\<exists>w. jsonNumberToInt (VFloat64 (Finite 42)) = Inr w \<and> sint w = 42)
   \<and> (\<exists>w. jsonNumberToInt (VFloat64 (Finite (- 1))) = Inr w \<and> sint w = - 1)
   \<and> (\<forall>f. VString ''foo'' \<noteq> VFloat64 f)
   \<and> jsonNumberToInt (VString ''foo'') = Inl (NotNumber (VString ''foo''))"
  using jsonNumberToInt_contract [of "VString ''foo''" "299 / 100"]
    jsonNumberToInt_contract [of "VString ''foo''" 42]
    jsonNumberToInt_contract [of "VString ''foo''" "- 1"]
  by (simp add: fits_int64_def trunc_def as_float64_def)

text \<open>
  C7 as stated fails at the \<^verbatim>\<open>float64\<close> \<open>2^63\<close>: the call succeeds, and its result is
  an \<^verbatim>\<open>int64\<close>, which the truncated number \<open>2^63\<close> is not.
\<close>

theorem jsonNumberToInt_overflow:
  "\<not> isl (jsonNumberToInt (VFloat64 (Finite (2 ^ 63))))
   \<and> sint (projr (jsonNumberToInt (VFloat64 (Finite (2 ^ 63))))) \<noteq> trunc (2 ^ 63)"
  by (simp add: jsonNumberToInt_def as_float64_def int64_of_float64_def fits_int64_def trunc_def)

subsection \<open>Array coercion\<close>

text \<open>
  C8, as amended. \<^verbatim>\<open>jsonNumberArrayToIntArray\<close> succeeds on every \<^verbatim>\<open>[]float64\<close>, with one
  integer for each element. When every element, truncated toward zero, fits the integer
  type, the result holds those integers in order. Every value that is not an array of
  floating-point numbers fails: a bare number, a string, a boolean, an array of
  non-numbers, a slice of integers.
\<close>

theorem jsonNumberArrayToIntArray_contract:
  "(\<exists>a. jsonNumberArrayToIntArray (VFloat64Slice aVal) = Inr a \<and> length a = length aVal)
   \<and> ((\<forall>x \<in> set xs. fits_int64 x) \<longrightarrow>
        (\<exists>a. jsonNumberArrayToIntArray (VFloat64Slice (map Finite xs)) = Inr a
             \<and> map sint a = map trunc xs))
   \<and> (\<not> is_number_array v \<longrightarrow> jsonNumberArrayToIntArray v = Inl (NotNumberArray v))"
proof (intro conjI impI)
  show "\<exists>a. jsonNumberArrayToIntArray (VFloat64Slice aVal) = Inr a \<and> length a = length aVal"
    by (simp add: jsonNumberArrayToIntArray_def as_float64_slice_def append_ints_map)
  show "\<exists>a. jsonNumberArrayToIntArray (VFloat64Slice (map Finite xs)) = Inr a
      \<and> map sint a = map trunc xs" if "\<forall>x \<in> set xs. fits_int64 x"
    using map_sint_int_of_float64 [OF that]
    by (simp add: jsonNumberArrayToIntArray_def as_float64_slice_def append_ints_map)
  show "jsonNumberArrayToIntArray v = Inl (NotNumberArray v)" if "\<not> is_number_array v"
    using that
    by (cases v)
      (simp_all add: jsonNumberArrayToIntArray_def as_float64_slice_def is_number_array_def)
qed

text \<open>
  The slice [42.0, 33.0, 12.95, -2.3] gives [42, 33, 12, -2]; a slice of integers, an array
  holding the string "foo" and the bare number 1.0 fail.
\<close>

theorem jsonNumberArrayToIntArray_contract_witness:
  "fits_int64 42 \<and> fits_int64 33 \<and> fits_int64 (1295 / 100) \<and> fits_int64 (- 23 / 10)
   \<and> (\<exists>a. jsonNumberArrayToIntArray
             (VFloat64Slice [Finite 42, Finite 33, Finite (1295 / 100), Finite (- 23 / 10)]) = Inr a
         \<and> map sint a = [42, 33, 12, - 2])
   \<and> \<not> is_number_array (VIntSlice [1, 2, 100, - 100])
   \<and> jsonNumberArrayToIntArray (VIntSlice [1, 2, 100, - 100])
       = Inl (NotNumberArray (VIntSlice [1, 2, 100, - 100]))
   \<and> \<not> is_number_array (VSlice [VString ''foo''])
   \<and> jsonNumberArrayToIntArray (VSlice [VString ''foo''])
       = Inl (NotNumberArray (VSlice [VString ''foo'']))
   \<and> \<not> is_number_array (VFloat64 (Finite 1))
   \<and> jsonNumberArrayToIntArray (VFloat64 (Finite 1)) = Inl (NotNumberArray (VFloat64 (Finite 1)))"
  using jsonNumberArrayToIntArray_contract
    [of "[]" "[42, 33, 1295 / 100, - 23 / 10]" "VIntSlice [1, 2, 100, - 100]"]
    jsonNumberArrayToIntArray_contract [of "[]" "[]" "VSlice [VString ''foo'']"]
    jsonNumberArrayToIntArray_contract [of "[]" "[]" "VFloat64 (Finite 1)"]
  by (simp add: fits_int64_def trunc_def is_number_array_def as_float64_def)

text \<open>
  C8 as stated fails at the slice holding the \<^verbatim>\<open>float64\<close> \<open>2^63\<close>: the call succeeds, and
  its element is not the truncated number.
\<close>

theorem jsonNumberArrayToIntArray_overflow:
  "\<not> isl (jsonNumberArrayToIntArray (VFloat64Slice [Finite (2 ^ 63)]))
   \<and> map sint (projr (jsonNumberArrayToIntArray (VFloat64Slice [Finite (2 ^ 63)])))
       \<noteq> map trunc [2 ^ 63]"
  by (simp add: jsonNumberArrayToIntArray_def as_float64_slice_def int_of_float64_def
      int64_of_float64_def fits_int64_def trunc_def)

subsection \<open>The shape of a record\<close>

text \<open>
  C9. A record of fewer than seventeen values fails with the shape error, which reports
  the index, the number of values and the seventeen expected, whatever the values are.
\<close>

theorem parseState_shape_check:
  "length s < 17 \<Longrightarrow> parseState s i = Inl (InvalidStateObject i (length s) 17)"
  by (rule parseState_short)

theorem parseState_shape_check_witness:
  "length [VFloat64 (Finite 0)] < 17
   \<and> parseState [VFloat64 (Finite 0)] 1 = Inl (InvalidStateObject 1 1 17)"
  using parseState_shape_check [of "[VFloat64 (Finite 0)]" 1] by simp

text \<open>
  C10. A record of more than seventeen values decodes as its first seventeen values do:
  it is not rejected for its length, and two records of seventeen values or more that
  agree on the first seventeen have the same result.
\<close>

theorem parseState_extra_ignored:
  assumes "17 < length s"
  shows "parseState s i = parseState (take 17 s) i
    \<and> (\<forall>n a b. parseState s i \<noteq> Inl (InvalidStateObject n a b))
    \<and> (\<forall>t. 17 \<le> length t \<and> take 17 t = take 17 s \<longrightarrow> parseState t i = parseState s i)"
proof (intro conjI allI impI)
  show "parseState s i = parseState (take 17 s) i"
    using assms by (simp add: parseState_take)
  show "parseState s i \<noteq> Inl (InvalidStateObject n a b)" for n a b
    using parseState_error_kind [of s i "InvalidStateObject n a b"] assms by auto
  show "parseState t i = parseState s i" if "17 \<le> length t \<and> take 17 t = take 17 s" for t
    using that assms parseState_take [of t i] parseState_take [of s i] by simp
qed

text \<open>The nil-filled record with one value more, and with two values more.\<close>

theorem parseState_extra_ignored_witness:
  "17 < length (record_nulls @ [VString ''x''])
   \<and> parseState (record_nulls @ [VString ''x'']) 0 = Inr state_nulls
   \<and> 17 \<le> length (record_nulls @ [VBool True, VNil])
   \<and> take 17 (record_nulls @ [VBool True, VNil]) = take 17 (record_nulls @ [VString ''x''])
   \<and> parseState (record_nulls @ [VBool True, VNil]) 0 = Inr state_nulls"
proof -
  have l: "length record_nulls = 17"
    by (simp add: record_nulls_def)
  have h: "17 < length (record_nulls @ [VString ''x''])"
    using l by simp
  have e: "parseState (record_nulls @ [VString ''x'']) 0 = Inr state_nulls"
    using parseState_extra_ignored [OF h, of 0] l by (simp add: parseState_record_nulls)
  have t: "17 \<le> length (record_nulls @ [VBool True, VNil])
      \<and> take 17 (record_nulls @ [VBool True, VNil]) = take 17 (record_nulls @ [VString ''x''])"
    using l by simp
  have "parseState (record_nulls @ [VBool True, VNil]) 0
      = parseState (record_nulls @ [VString ''x'']) 0"
    using parseState_extra_ignored [OF h, of 0] t by blast
  with h e t show ?thesis by simp
qed

subsection \<open>Permissive fields\<close>

text \<open>
  C2. In a record of seventeen values whose other values are valid, a value that is not
  null and not a number at a permissive position (5, 6, 7, 9, 10, 11 or 13) decodes:
  the field of that position is unset, and the State is the one the record gives with a
  null at that position.
\<close>

theorem permissive_optional:
  assumes "length s = 17"
    and "k = 5 \<or> k = 6 \<or> k = 7 \<or> k = 9 \<or> k = 10 \<or> k = 11 \<or> k = 13"
    and "\<forall>j<17. j \<noteq> k \<longrightarrow> field_valid j (s ! j)"
    and "v \<noteq> VNil" and "as_float64 v = None"
  shows "\<exists>st. parseState (s[k := v]) i = Inr st \<and> permissive_field k st = None
    \<and> parseState (s[k := VNil]) i = Inr st"
proof -
  have "field_valid k VNil"
    using assms(2) by (auto simp add: field_valid_def)
  then obtain st where st: "parseState (s[k := VNil]) i = Inr st"
    using parseState_update_succeeds [OF assms(1) assms(3)] by blast
  have e: "parseState (s[k := v]) i = parseState (s[k := VNil]) i"
    using parseState_permissive_drop [of s v k i] assms by simp
  have "permissive_field k st = as_float64 (s[k := VNil] ! k)"
    using assms(2) parseState_permissive [OF st]
    by (elim disjE; simp add: permissive_field_def)
  then have "permissive_field k st = None"
    using assms(1,2) by (auto simp add: as_float64_def)
  with st e show ?thesis by simp
qed

text \<open>The test suite's record with the string "invalid_long" as longitude.\<close>

theorem permissive_optional_witness:
  "length record_nulls = 17 \<and> VString ''invalid_long'' \<noteq> VNil
   \<and> as_float64 (VString ''invalid_long'') = None
   \<and> parseState (record_nulls[5 := VString ''invalid_long'']) 7 = Inr state_nulls
   \<and> Longitude state_nulls = None"
proof -
  have v: "VString ''invalid_long'' \<noteq> VNil" "as_float64 (VString ''invalid_long'') = None"
    by (simp_all add: as_float64_def)
  have n: "record_nulls[5 := VNil] = record_nulls"
    by (simp add: record_nulls_def)
  obtain st where "parseState (record_nulls[5 := VString ''invalid_long'']) 7 = Inr st"
    and "permissive_field 5 st = None" and "parseState (record_nulls[5 := VNil]) 7 = Inr st"
    using permissive_optional [OF length_record_nulls _ record_nulls_others_valid v, of 5 7]
    by auto
  then show ?thesis
    using v length_record_nulls by (simp add: n parseState_record_nulls permissive_field_def)
qed

subsection \<open>Validated fields\<close>

text \<open>
  C3. In a record of seventeen values whose other values are valid, position 3
  (time_position), 12 (sensors) or 14 (squawk) behaves so: with a null there the record
  decodes and the field is unset; with a value there that is not null and not of the
  field's type the record fails, with the error that names the field and the record's
  index and carries the value.
\<close>

theorem validated_optional:
  assumes "length s = 17" and "k = 3 \<or> k = 12 \<or> k = 14"
    and "\<forall>j<17. j \<noteq> k \<longrightarrow> field_valid j (s ! j)"
  shows "(\<exists>st. parseState (s[k := VNil]) i = Inr st
            \<and> (k = 3 \<longrightarrow> TimePosition st = None)
            \<and> (k = 12 \<longrightarrow> Sensors st = [])
            \<and> (k = 14 \<longrightarrow> Squawk st = []))
    \<and> (v \<noteq> VNil \<and> \<not> field_valid k v \<longrightarrow>
         parseState (s[k := v]) i =
           Inl (if k = 3 then InvalidWrapped ''time_position'' i (NotNumber v)
                else if k = 12 then InvalidWrapped ''sensors'' i (NotNumberArray v)
                else InvalidValue ''squawk'' i v))"
proof (intro conjI impI)
  have "field_valid k VNil"
    using assms(2) by (auto simp add: field_valid_def)
  then obtain st where st: "parseState (s[k := VNil]) i = Inr st"
    using parseState_update_succeeds [OF assms(1) assms(3)] by blast
  have "s[k := VNil] ! k = VNil"
    using assms(1,2) by auto
  then have "(k = 3 \<longrightarrow> TimePosition st = None) \<and> (k = 12 \<longrightarrow> Sensors st = [])
      \<and> (k = 14 \<longrightarrow> Squawk st = [])"
    using parseState_null [OF st] by auto
  with st show "\<exists>st. parseState (s[k := VNil]) i = Inr st
      \<and> (k = 3 \<longrightarrow> TimePosition st = None)
      \<and> (k = 12 \<longrightarrow> Sensors st = [])
      \<and> (k = 14 \<longrightarrow> Squawk st = [])"
    by blast
next
  assume w: "v \<noteq> VNil \<and> \<not> field_valid k v"
  have l: "17 \<le> length (s[k := v])"
    using assms(1) by simp
  have n: "s[k := v] ! k = v"
    using assms(1,2) by auto
  note o = others_valid_update [OF assms(3), of v]
  from assms(2) show "parseState (s[k := v]) i =
      Inl (if k = 3 then InvalidWrapped ''time_position'' i (NotNumber v)
           else if k = 12 then InvalidWrapped ''sensors'' i (NotNumberArray v)
           else InvalidValue ''squawk'' i v)"
  proof (elim disjE)
    assume k: "k = 3"
    then have "as_float64 v = None"
      using w by (simp add: field_valid_def)
    then show ?thesis
      using parseState_validated_3 [of "s[k := v]" i] l n o w k by simp
  next
    assume k: "k = 12"
    then have "as_float64_slice v = None"
      using w by (simp add: field_valid_def)
    then show ?thesis
      using parseState_validated_12 [of "s[k := v]" i] l n o w k by simp
  next
    assume k: "k = 14"
    then have "as_string v = None"
      using w by (simp add: field_valid_def)
    then show ?thesis
      using parseState_validated_14 [of "s[k := v]" i] l n o w k by simp
  qed
qed

text \<open>
  The test suite's record with a null squawk, and with the integer 666 as squawk; then
  with the string "invalid_time" as time_position and with a slice of strings as sensors.
\<close>

theorem validated_optional_witness:
  "length record_nulls = 17
   \<and> parseState (record_nulls[14 := VNil]) 9 = Inr state_nulls \<and> Squawk state_nulls = []
   \<and> VInt 666 \<noteq> VNil \<and> \<not> field_valid 14 (VInt 666)
   \<and> parseState (record_nulls[14 := VInt 666]) 9 = Inl (InvalidValue ''squawk'' 9 (VInt 666))
   \<and> parseState (record_nulls[3 := VString ''invalid_time'']) 5
       = Inl (InvalidWrapped ''time_position'' 5 (NotNumber (VString ''invalid_time'')))
   \<and> parseState (record_nulls[12 := VStringSlice [''invalid'', ''sensors'']]) 8
       = Inl (InvalidWrapped ''sensors'' 8
               (NotNumberArray (VStringSlice [''invalid'', ''sensors''])))"
proof -
  have n: "record_nulls[14 := VNil] = record_nulls"
    by (simp add: record_nulls_def)
  have a: "VInt 666 \<noteq> VNil \<and> \<not> field_valid 14 (VInt 666)"
    by (simp add: field_valid_def as_string_def)
  have b: "VString ''invalid_time'' \<noteq> VNil \<and> \<not> field_valid 3 (VString ''invalid_time'')"
    by (simp add: field_valid_def as_float64_def)
  have c: "VStringSlice [''invalid'', ''sensors''] \<noteq> VNil
      \<and> \<not> field_valid 12 (VStringSlice [''invalid'', ''sensors''])"
    by (simp add: field_valid_def as_float64_slice_def)
  have "parseState (record_nulls[14 := VInt 666]) 9 = Inl (InvalidValue ''squawk'' 9 (VInt 666))"
    using validated_optional [OF length_record_nulls _ record_nulls_others_valid, of 14 9 "VInt 666"]
      a by simp
  moreover have "parseState (record_nulls[3 := VString ''invalid_time'']) 5
      = Inl (InvalidWrapped ''time_position'' 5 (NotNumber (VString ''invalid_time'')))"
    using validated_optional [OF length_record_nulls _ record_nulls_others_valid, of 3 5
        "VString ''invalid_time''"] b by simp
  moreover have "parseState (record_nulls[12 := VStringSlice [''invalid'', ''sensors'']]) 8
      = Inl (InvalidWrapped ''sensors'' 8
              (NotNumberArray (VStringSlice [''invalid'', ''sensors''])))"
    using validated_optional [OF length_record_nulls _ record_nulls_others_valid, of 12 8
        "VStringSlice [''invalid'', ''sensors'']"] c by simp
  ultimately show ?thesis
    using a length_record_nulls by (simp add: n parseState_record_nulls state_nulls_def)
qed

subsection \<open>The position source\<close>

text \<open>
  C4, as amended. In a record of seventeen values whose other values are valid, any
  number at position 16 whose truncation fits a signed 64-bit integer is accepted, and
  that integer is the position source of the State, whether or not it is one of the four
  codes.
\<close>

theorem position_source_open:
  assumes "length s = 17" and "\<forall>j<17. j \<noteq> 16 \<longrightarrow> field_valid j (s ! j)" and "fits_int64 x"
  shows "\<exists>st. parseState (s[16 := VFloat64 (Finite x)]) i = Inr st
    \<and> sint (PositionSource st) = trunc x"
proof -
  have "field_valid 16 (VFloat64 (Finite x))"
    by (simp add: field_valid_def as_float64_def)
  then obtain st where st: "parseState (s[16 := VFloat64 (Finite x)]) i = Inr st"
    using parseState_update_succeeds [OF assms(1,2)] by blast
  have "s[16 := VFloat64 (Finite x)] ! 16 = VFloat64 (Finite x)"
    using assms(1) by simp
  then have "PositionSource st = int64_of_float64 (Finite x)"
    using parseState_position_source [OF st] by (simp add: jsonNumberToInt_def as_float64_def)
  then have "sint (PositionSource st) = trunc x"
    using assms(3) by (simp add: sint_int64_of_float64)
  with st show ?thesis by blast
qed

text \<open>The test suite's record with the number 666 as position source.\<close>

theorem position_source_open_witness:
  "length record_nulls = 17 \<and> fits_int64 666
   \<and> (\<exists>st. parseState (record_nulls[16 := VFloat64 (Finite 666)]) 0 = Inr st
         \<and> sint (PositionSource st) = 666)"
  using position_source_open [OF length_record_nulls record_nulls_others_valid, of 666 0]
    length_record_nulls
  by (simp add: fits_int64_def trunc_def)

text \<open>
  C4 as stated fails at the test suite's record with the number 4 as position source:
  the record decodes, and its position source is 4, none of the four codes.
\<close>

theorem position_source_out_of_range_accepted:
  "parseState (record_nulls[16 := VFloat64 (Finite 4)]) 0
     = Inr (state_nulls\<lparr>PositionSource := 4\<rparr>)
   \<and> (4 :: PositionSource) \<noteq> ADSB \<and> (4 :: PositionSource) \<noteq> ASTERIX
   \<and> (4 :: PositionSource) \<noteq> MLAT \<and> (4 :: PositionSource) \<noteq> FLARM"
  by (simp add: parseState_def record_nulls_def state_nulls_def as_string_def as_float64_def
      as_bool_def jsonNumberToInt_def int64_of_float64_def fits_int64_def trunc_def
      ADSB_def ASTERIX_def MLAT_def FLARM_def)

subsection \<open>The happy path\<close>

text \<open>
  C6, at the filled record as it arrives from the wire, every value of its field's type
  and none null: \<^verbatim>\<open>parseState\<close> fails with the error of the sensors field, because the
  array of numbers is a \<^verbatim>\<open>[]interface{}\<close> and not a \<^verbatim>\<open>[]float64\<close>. The same record with
  the sensors as a \<^verbatim>\<open>[]float64\<close>, the shape of the test suite, decodes to the State the
  test suite expects; its two timestamps are 1624891429 seconds after the first second
  of 1970 and its sensors are 1000 and 1042.
\<close>

theorem parseState_wire_sensors_rejected:
  "parseState record_filled_wire 0
     = Inl (InvalidWrapped ''sensors'' 0
             (NotNumberArray (VSlice [VFloat64 (Finite 1000), VFloat64 (Finite 1042)])))
   \<and> parseState record_filled 0 = Inr state_filled
   \<and> TimePosition state_filled
       = Some (UnixTime \<lparr>wall = 0, ext = 1624891429 + 62135596800, loc = Some Local\<rparr>)
   \<and> LastContact state_filled
       = UnixTime \<lparr>wall = 0, ext = 1624891429 + 62135596800, loc = Some Local\<rparr>
   \<and> Sensors state_filled = [1000, 1042]"
proof (intro conjI)
  show "parseState record_filled_wire 0
      = Inl (InvalidWrapped ''sensors'' 0
              (NotNumberArray (VSlice [VFloat64 (Finite 1000), VFloat64 (Finite 1042)])))"
    by (simp add: parseState_def record_filled_wire_def as_string_def as_float64_def
        as_bool_def as_float64_slice_def jsonNumberToInt_def jsonNumberArrayToIntArray_def)
  show "parseState record_filled 0 = Inr state_filled"
    by (rule parseState_record_filled)
  show "TimePosition state_filled
      = Some (UnixTime \<lparr>wall = 0, ext = 1624891429 + 62135596800, loc = Some Local\<rparr>)"
    by (simp add: state_filled_def newUnixTime_def time_Unix_def unixToInternal_def)
  show "LastContact state_filled
      = UnixTime \<lparr>wall = 0, ext = 1624891429 + 62135596800, loc = Some Local\<rparr>"
    by (simp add: state_filled_def newUnixTime_def time_Unix_def unixToInternal_def)
  show "Sensors state_filled = [1000, 1042]"
    by (simp add: state_filled_def)
qed

subsection \<open>Batches\<close>

text \<open>
  C1, at the batch of the valid nil-filled record followed by the record with the invalid
  special purpose indicator: \<^verbatim>\<open>parseStatesResponse\<close> returns the error of the record at
  index 1, and beside it a response that holds the state of the record at index 0.
\<close>

theorem parseStatesResponse_partial_states:
  "parseStatesResponse \<lparr>unstructuredStateResponse.Time = 1624958210,
       unstructuredStateResponse.States = [record_nulls, record_invalid_spi]\<rparr>
   = (\<lparr>Time = time_Unix 1624958210, States = [state_nulls]\<rparr>,
      Some (InvalidValue ''spi'' 1 (VString ''invalid_spi'')))"
  by (simp add: parseStatesResponse_def parseState_record_nulls parseState_record_invalid_spi)

subsection \<open>The timestamp wrapper\<close>

text \<open>
  C5, as amended. Decoding the literal \<^verbatim>\<open>null\<close> succeeds and yields the zero value of
  \<^verbatim>\<open>time.Time\<close>, the first instant of year 1. Decoding the literal \<^verbatim>\<open>0\<close> succeeds and
  yields \<^verbatim>\<open>time.Unix(0, 0)\<close>. The two values differ, and \<^verbatim>\<open>IsZero\<close> tells them apart.
  Decoding a literal that begins as a string, an object or an array fails with an error
  and leaves the receiver as it was.
\<close>

theorem UnmarshalJSON_null_and_literals:
  "UnmarshalJSON t ''null'' = (UnixTime zero_Time, None)
   \<and> UnmarshalJSON t ''0'' = (newUnixTime 0, None)
   \<and> UnixTime zero_Time \<noteq> newUnixTime 0
   \<and> IsZero zero_Time \<and> \<not> IsZero (time_Unix 0)
   \<and> (raw \<noteq> [] \<and> (hd raw = CHR 0x22 \<or> hd raw = CHR ''{'' \<or> hd raw = CHR ''['')
        \<longrightarrow> (\<exists>err. UnmarshalJSON t raw = (t, Some err)))"
proof (intro conjI impI)
  show "UnmarshalJSON t ''null'' = (UnixTime zero_Time, None)"
    by (simp add: UnmarshalJSON_def)
  show "UnmarshalJSON t ''0'' = (newUnixTime 0, None)"
    by (simp add: UnmarshalJSON_def ParseInt_zero newUnixTime_def)
  show "UnixTime zero_Time \<noteq> newUnixTime 0"
    by (simp add: newUnixTime_def time_Unix_def zero_Time_def)
  show "IsZero zero_Time"
    by (simp add: IsZero_def zero_Time_def)
  show "\<not> IsZero (time_Unix 0)"
    by (simp add: IsZero_def time_Unix_def unixToInternal_def)
  show "\<exists>err. UnmarshalJSON t raw = (t, Some err)"
    if "raw \<noteq> [] \<and> (hd raw = CHR 0x22 \<or> hd raw = CHR ''{'' \<or> hd raw = CHR ''['')"
  proof -
    have "ParseInt raw = Inl (ErrSyntax raw)"
      using that by (simp add: ParseInt_not_number)
    moreover have "raw \<noteq> ''null''"
      using that by auto
    ultimately show ?thesis
      by (simp add: UnmarshalJSON_def)
  qed
qed

text \<open>The literals of the test suite: the string "string" and the empty object.\<close>

theorem UnmarshalJSON_null_and_literals_witness:
  "UnmarshalJSON (newUnixTime 7) (CHR 0x22 # ''string'' @ [CHR 0x22])
     = (newUnixTime 7, Some (ErrSyntax (CHR 0x22 # ''string'' @ [CHR 0x22])))
   \<and> UnmarshalJSON (newUnixTime 7) ''{}'' = (newUnixTime 7, Some (ErrSyntax ''{}''))
   \<and> UnmarshalJSON (newUnixTime 7) ''null'' = (UnixTime zero_Time, None)"
proof -
  have "\<exists>err. UnmarshalJSON (newUnixTime 7) (CHR 0x22 # ''string'' @ [CHR 0x22])
      = (newUnixTime 7, Some err)"
    using UnmarshalJSON_null_and_literals
      [of "newUnixTime 7" "CHR 0x22 # ''string'' @ [CHR 0x22]"] by simp
  moreover have "\<exists>err. UnmarshalJSON (newUnixTime 7) ''{}'' = (newUnixTime 7, Some err)"
    using UnmarshalJSON_null_and_literals [of "newUnixTime 7" "''{}''"] by simp
  moreover have "UnmarshalJSON (newUnixTime 7) ''null'' = (UnixTime zero_Time, None)"
    using UnmarshalJSON_null_and_literals [of "newUnixTime 7" "''{}''"] by simp
  ultimately show ?thesis
    by (auto simp add: UnmarshalJSON_def ParseInt_def is_digit_def)
qed

text \<open>
  C5 as stated fails: the value decoded from \<^verbatim>\<open>null\<close> is not the value decoded from
  \<^verbatim>\<open>0\<close>.
\<close>

theorem UnmarshalJSON_null_is_not_epoch:
  "fst (UnmarshalJSON (UnixTime zero_Time) ''null'') \<noteq> fst (UnmarshalJSON (UnixTime zero_Time) ''0'')
   \<and> snd (UnmarshalJSON (UnixTime zero_Time) ''null'') = None
   \<and> snd (UnmarshalJSON (UnixTime zero_Time) ''0'') = None"
  by (simp add: UnmarshalJSON_def ParseInt_zero time_Unix_def zero_Time_def)

end
